theory Spec2Isabelle
  imports Main "HOL-Library.Word"
begin

unbundle bit_operations_syntax

section \<open>The gpt command-line tool (system/uapp/gpt/gpt.c)\<close>

text \<open>
  A shallow embedding of \<^verbatim>\<open>gpt.c\<close>. C integers of a fixed width are words, arrays are
  lists read and written by index, and every read or write that C leaves undefined (an
  index outside the array, a division by zero, a string that is not terminated inside its
  buffer) is a value of the type \<open>abort\<close>. The block device, the standard input and the GPT
  library (\<^verbatim>\<open>gpt/gpt.h\<close>) are not part of the file: they are the fields of the
  record \<open>env\<close>, and every call the program makes to them is logged as an \<open>event\<close>.
\<close>

subsection \<open>Machine types and undefined behaviour\<close>

type_synonym u8 = "8 word"
type_synonym u16 = "16 word"
type_synonym u64 = "64 word"

datatype abort =
    OutOfBoundsRead
  | OutOfBoundsWrite
  | DivideByZero
  | InvalidPointer
  | NeverReturns

subsection \<open>\<^verbatim>\<open>utf16_to_cstring\<close>\<close>

text \<open>
  \<^verbatim>\<open>while (i < len) { char c = src[i++] & 0x7f; if (!c) continue; *ptr++ = c; } return dst;\<close>
  The state of the loop is the destination buffer, the index \<open>i\<close> and the offset of
  \<open>ptr\<close> from \<open>dst\<close>.
\<close>

function utf16_loop :: "u8 list \<Rightarrow> u16 list \<Rightarrow> nat \<Rightarrow> nat \<Rightarrow> nat \<Rightarrow> abort + u8 list" where
  "utf16_loop dst src len i ptr =
     (if i < len then
        (if length src \<le> i then Inl OutOfBoundsRead
         else
           (let c = (ucast ((src ! i) AND 0x7f) :: u8) in
            if c = 0 then utf16_loop dst src len (i + 1) ptr
            else if length dst \<le> ptr then Inl OutOfBoundsWrite
            else utf16_loop (dst[ptr := c]) src len (i + 1) (ptr + 1)))
      else Inr dst)"
  by pat_completeness auto
termination
  by (relation "measure (\<lambda>(dst, src, len, i, ptr). len - i)") auto

definition utf16_to_cstring :: "u8 list \<Rightarrow> u16 list \<Rightarrow> nat \<Rightarrow> abort + u8 list" where
  "utf16_to_cstring dst src len = utf16_loop dst src len 0 0"

text \<open>
  What \<^verbatim>\<open>printf("%s", buf)\<close> prints: the bytes before the first null byte. A buffer
  with no null byte is read past its end.
\<close>

definition printf_s :: "u8 list \<Rightarrow> abort + u8 list" where
  "printf_s buf =
     (if 0 \<in> set buf then Inr (takeWhile (\<lambda>b. b \<noteq> 0) buf) else Inl OutOfBoundsRead)"

text \<open>The characters the decoder keeps, as a list function: the reference for the loop.\<close>

definition low7 :: "u16 \<Rightarrow> u8" where
  "low7 u = ucast (u AND 0x7f)"

definition kept_chars :: "u16 list \<Rightarrow> u8 list" where
  "kept_chars src = filter (\<lambda>c. c \<noteq> 0) (map low7 src)"

subsection \<open>\<^verbatim>\<open>guid_to_cstring\<close>\<close>

text \<open>\<^verbatim>\<open>%02X\<close> of a byte: two upper-case hexadecimal digits.\<close>

definition hex_digit :: "nat \<Rightarrow> char" where
  "hex_digit n = ''0123456789ABCDEF'' ! n"

definition hex2 :: "u8 \<Rightarrow> string" where
  "hex2 b = [hex_digit (unat b div 16), hex_digit (unat b mod 16)]"

text \<open>
  \<^verbatim>\<open>sprintf(dst, "%02X%02X%02X%02X-%02X%02X-%02X%02X-%02X%02X-%02X%02X%02X%02X%02X%02X",
    src[3], src[2], src[1], src[0], src[5], src[4], src[7], src[6], src[9], src[8],
    src[15], src[14], src[13], src[12], src[11], src[10]);\<close>
  The result is the text written to \<open>dst\<close> (36 characters; both callers pass a buffer of
  37 bytes). A source shorter than 16 bytes is read out of bounds.
\<close>

definition guid_to_cstring :: "u8 list \<Rightarrow> abort + string" where
  "guid_to_cstring src =
     (if length src < 16 then Inl OutOfBoundsRead
      else Inr (hex2 (src ! 3) @ hex2 (src ! 2) @ hex2 (src ! 1) @ hex2 (src ! 0) @ ''-'' @
                hex2 (src ! 5) @ hex2 (src ! 4) @ ''-'' @
                hex2 (src ! 7) @ hex2 (src ! 6) @ ''-'' @
                hex2 (src ! 9) @ hex2 (src ! 8) @ ''-'' @
                hex2 (src ! 15) @ hex2 (src ! 14) @ hex2 (src ! 13) @
                hex2 (src ! 12) @ hex2 (src ! 11) @ hex2 (src ! 10)))"

subsection \<open>The table handle of \<^verbatim>\<open>gpt/gpt.h\<close>\<close>

text \<open>
  \<open>gpt_partition_t\<close>: the fields the program reads. The name is read through a
  \<^verbatim>\<open>const uint16_t*\<close>, so it is a list of 16-bit units.
\<close>

record gpt_partition =
  name_p :: "u16 list"
  guid_p :: "u8 list"
  first_p :: u64
  last_p :: u64

text \<open>
  \<open>gpt_device_t\<close>: the validity flag and the array \<open>partitions\<close> of pointers to entries
  (\<open>None\<close> is the null pointer). The entries live in memory the library owns: \<open>memory\<close>
  is that store and a pointer is an index into it, so that an entry read after a
  library call is the entry as the library left it.
\<close>

record gpt_device =
  valid :: bool
  partitions :: "nat option list"
  memory :: "gpt_partition list"

definition deref :: "gpt_device \<Rightarrow> nat \<Rightarrow> abort + gpt_partition" where
  "deref gpt p = (if p < length (memory gpt) then Inr (memory gpt ! p) else Inl InvalidPointer)"

subsection \<open>The environment and the events\<close>

datatype event =
    Printf_using string
  | Printf_error_opening string
  | Printf_error_blocksize
  | Printf_error_size
  | Printf_geometry u64 u64
  | Printf_error_init
  | Printf_commit
  | Printf_no_valid_gpt
  | Printf_table_valid
  | Printf_partition int "u8 list" u64 u64 u64 string
  | Printf_total int
  | Printf_add string u64 u64
  | Printf_remove int "u8 list"
  | Open_rdwr string int
  | Close int
  | Ioctl_get_blocksize int
  | Ioctl_get_size int
  | Ioctl_rr_part int
  | Gpt_device_init int u64 u64
  | Gpt_device_sync gpt_device
  | Gpt_device_release gpt_device
  | Gpt_partition_add gpt_device string "u8 list" "u8 list" u64 u64 u64
  | Gpt_partition_remove gpt_device "u8 list"
  | Mx_cprng_draw nat

text \<open>
  What the program does not define itself. \<open>PARTITIONS_COUNT\<close> is the constant of
  \<^verbatim>\<open>gpt/gpt.h\<close>; \<open>stdin_reads\<close> lists the results of the successive
  \<^verbatim>\<open>read(0, &ch, 1)\<close> calls (the return value and the byte stored), after which no
  input ever arrives; \<open>open_rdwr\<close> is \<^verbatim>\<open>open(dev, O_RDWR)\<close>; the two queries return the
  status of \<^verbatim>\<open>mxio_ioctl\<close> and the value it stores; \<open>gpt_device_init\<close> returns its
  status and the handle it stores through \<^verbatim>\<open>out_dev\<close> (read only when the status is
  not negative); the other library calls return the table handle as they leave it, add
  and remove with their status; \<open>mx_cprng_draw\<close> returns the bytes drawn;
  \<open>stack_name\<close> is the content of the uninitialised array \<^verbatim>\<open>char name[37]\<close> of
  \<open>remove_partition\<close>.
\<close>

record env =
  PARTITIONS_COUNT :: nat
  stdin_reads :: "(int \<times> u8) list"
  open_rdwr :: "string \<Rightarrow> int"
  ioctl_get_blocksize :: "int \<Rightarrow> int \<times> u64"
  ioctl_get_size :: "int \<Rightarrow> int \<times> u64"
  gpt_device_init :: "int \<Rightarrow> u64 \<Rightarrow> u64 \<Rightarrow> int \<times> gpt_device"
  gpt_device_sync :: "gpt_device \<Rightarrow> gpt_device"
  gpt_partition_add ::
    "gpt_device \<Rightarrow> string \<Rightarrow> u8 list \<Rightarrow> u8 list \<Rightarrow> u64 \<Rightarrow> u64 \<Rightarrow> u64 \<Rightarrow> int \<times> gpt_device"
  gpt_partition_remove :: "gpt_device \<Rightarrow> u8 list \<Rightarrow> int \<times> gpt_device"
  mx_cprng_draw :: "nat \<Rightarrow> u8 list"
  stack_name :: "u8 list"

subsection \<open>\<^verbatim>\<open>cgetc\<close>, \<^verbatim>\<open>init\<close> and \<^verbatim>\<open>commit\<close>\<close>

text \<open>
  \<^verbatim>\<open>for (;;) { ...; int r = read(0, &ch, 1); if (r < 0) return r; if (r == 1) return ch; }\<close>
  The loop has no exit but these two: when the input gives neither, it never returns.
\<close>

fun cgetc :: "(int \<times> u8) list \<Rightarrow> abort + int" where
  "cgetc [] = Inl NeverReturns"
| "cgetc ((r, ch) # rest) =
     (if r < 0 then Inr r else if r = 1 then Inr (uint ch) else cgetc rest)"

text \<open>
  \<open>init\<close> from the call of \<^verbatim>\<open>open\<close> on. \<open>None\<close> is the return value \<^verbatim>\<open>NULL\<close>;
  \<^verbatim>\<open>blocks /= blocksize\<close> is a division of unsigned 64-bit integers, undefined for
  the divisor 0.
\<close>

definition init_open :: "env \<Rightarrow> string \<Rightarrow> event list \<times> (abort + (gpt_device \<times> int) option)" where
  "init_open e dev =
     (let fd = open_rdwr e dev in
      if fd < 0 then ([Open_rdwr dev fd, Printf_error_opening dev], Inr None)
      else
        (case ioctl_get_blocksize e fd of (rc, blocksize) \<Rightarrow>
           if rc < 0 then
             ([Open_rdwr dev fd, Ioctl_get_blocksize fd, Printf_error_blocksize, Close fd],
              Inr None)
           else
             (case ioctl_get_size e fd of (rc2, blocks) \<Rightarrow>
                if rc2 < 0 then
                  ([Open_rdwr dev fd, Ioctl_get_blocksize fd, Ioctl_get_size fd,
                    Printf_error_size, Close fd], Inr None)
                else if blocksize = 0 then
                  ([Open_rdwr dev fd, Ioctl_get_blocksize fd, Ioctl_get_size fd],
                   Inl DivideByZero)
                else
                  (let blocks' = blocks div blocksize in
                   case gpt_device_init e fd blocksize blocks' of (rc3, gpt) \<Rightarrow>
                     if rc3 < 0 then
                       ([Open_rdwr dev fd, Ioctl_get_blocksize fd, Ioctl_get_size fd,
                         Printf_geometry blocksize blocks',
                         Gpt_device_init fd blocksize blocks', Printf_error_init, Close fd],
                        Inr None)
                     else
                       ([Open_rdwr dev fd, Ioctl_get_blocksize fd, Ioctl_get_size fd,
                         Printf_geometry blocksize blocks',
                         Gpt_device_init fd blocksize blocks'],
                        Inr (Some (gpt, fd)))))))"

definition init :: "env \<Rightarrow> string \<Rightarrow> bool \<Rightarrow> event list \<times> (abort + (gpt_device \<times> int) option)" where
  "init e dev warn =
     (if warn then
        (case cgetc (stdin_reads e) of
           Inl a \<Rightarrow> ([Printf_using dev], Inl a)
         | Inr c \<Rightarrow>
             if c \<noteq> 10 then ([Printf_using dev], Inr None)
             else (case init_open e dev of (t, r) \<Rightarrow> (Printf_using dev # t, r)))
      else init_open e dev)"

text \<open>
  \<^verbatim>\<open>printf("commit\n"); gpt_device_sync(gpt); mxio_ioctl(fd, BLOCK_OP_RR_PART, ...);\<close>
\<close>

definition commit :: "env \<Rightarrow> gpt_device \<Rightarrow> int \<Rightarrow> event list \<times> gpt_device" where
  "commit e gpt fd =
     ([Printf_commit, Gpt_device_sync gpt, Ioctl_rr_part fd], gpt_device_sync e gpt)"

subsection \<open>\<^verbatim>\<open>dump_partitions\<close>\<close>

text \<open>
  One \<^verbatim>\<open>printf\<close> of the loop: \<^verbatim>\<open>memset(name, 0, 37)\<close>, then the index, the decoded
  name, \<open>p->first\<close>, \<open>p->last\<close>, \<open>p->last - p->first + 1\<close> and the formatted \<open>p->guid\<close>.
\<close>

definition print_partition :: "nat \<Rightarrow> gpt_partition \<Rightarrow> abort + event" where
  "print_partition i p =
     (case utf16_to_cstring (replicate 37 0) (name_p p) 36 of
        Inl a \<Rightarrow> Inl a
      | Inr buf \<Rightarrow>
          (case printf_s buf of
             Inl a \<Rightarrow> Inl a
           | Inr s \<Rightarrow>
               (case guid_to_cstring (guid_p p) of
                  Inl a \<Rightarrow> Inl a
                | Inr g \<Rightarrow>
                    Inr (Printf_partition (int i) s (first_p p) (last_p p)
                           (last_p p - first_p p + 1) g))))"

text \<open>
  \<^verbatim>\<open>for (i = 0; i < PARTITIONS_COUNT; i++) { p = gpt->partitions[i]; if (!p) break; ... }\<close>
  The result is the lines printed from \<open>i\<close> on and the value of \<open>i\<close> after the loop.
\<close>

function dump_loop :: "env \<Rightarrow> gpt_device \<Rightarrow> nat \<Rightarrow> event list \<times> (abort + nat)" where
  "dump_loop e gpt i =
     (if i < PARTITIONS_COUNT e then
        (if length (partitions gpt) \<le> i then ([], Inl OutOfBoundsRead)
         else
           (case partitions gpt ! i of
              None \<Rightarrow> ([], Inr i)
            | Some p \<Rightarrow>
                (case deref gpt p of
                   Inl a \<Rightarrow> ([], Inl a)
                 | Inr entry \<Rightarrow>
                     (case print_partition i entry of
                        Inl a \<Rightarrow> ([], Inl a)
                      | Inr line \<Rightarrow>
                          (case dump_loop e gpt (i + 1) of (t, r) \<Rightarrow> (line # t, r))))))
      else ([], Inr i))"
  by pat_completeness auto
termination
  by (relation "measure (\<lambda>(e, gpt, i). PARTITIONS_COUNT e - i)") auto

definition dump_partitions :: "env \<Rightarrow> string \<Rightarrow> event list \<times> (abort + unit)" where
  "dump_partitions e dev =
     (case init e dev False of
        (t, Inl a) \<Rightarrow> (t, Inl a)
      | (t, Inr None) \<Rightarrow> (t, Inr ())
      | (t, Inr (Some (gpt, fd))) \<Rightarrow>
          if \<not> valid gpt then (t @ [Printf_no_valid_gpt], Inr ())
          else
            (case dump_loop e gpt 0 of
               (lines, Inl a) \<Rightarrow> (t @ [Printf_table_valid] @ lines, Inl a)
             | (lines, Inr i) \<Rightarrow>
                 (t @ [Printf_table_valid] @ lines @
                    [Printf_total (int i), Gpt_device_release gpt, Close fd], Inr ())))"

subsection \<open>\<^verbatim>\<open>add_partition\<close>\<close>

definition add_partition ::
  "env \<Rightarrow> string \<Rightarrow> u64 \<Rightarrow> u64 \<Rightarrow> string \<Rightarrow> event list \<times> (abort + unit)" where
  "add_partition e dev offset blocks name =
     (case init e dev True of
        (t, Inl a) \<Rightarrow> (t, Inl a)
      | (t, Inr None) \<Rightarrow> (t, Inr ())
      | (t, Inr (Some (gpt, fd))) \<Rightarrow>
          (case (if \<not> valid gpt then commit e gpt fd else ([], gpt)) of (t1, gpt1) \<Rightarrow>
             (let type = replicate 16 (0xff :: u8);
                  guid = mx_cprng_draw e 16
              in case gpt_partition_add e gpt1 name type guid offset blocks 0 of (rc, gpt2) \<Rightarrow>
                   (case (if rc = 0
                          then (case commit e gpt2 fd of (tc, gpt3) \<Rightarrow>
                                  (Printf_add name offset blocks # tc, gpt3))
                          else ([], gpt2)) of (t2, gpt3) \<Rightarrow>
                      (t @ t1 @
                         [Mx_cprng_draw 16,
                          Gpt_partition_add gpt1 name type guid offset blocks 0] @ t2 @
                         [Gpt_device_release gpt3, Close fd], Inr ())))))"

subsection \<open>\<^verbatim>\<open>remove_partition\<close>\<close>

text \<open>
  \<open>n\<close> is a C \<^verbatim>\<open>int\<close>. The only test before \<^verbatim>\<open>gpt->partitions[n]\<close> is
  \<^verbatim>\<open>n >= PARTITIONS_COUNT\<close>; the array has \<open>length (partitions gpt)\<close> elements, and an
  index outside it is an out-of-bounds read. The name is read through \<open>p\<close> after
  \<^verbatim>\<open>gpt_partition_remove\<close> has returned, into the array \<open>name\<close> as the stack holds it.
\<close>

definition remove_partition :: "env \<Rightarrow> string \<Rightarrow> int \<Rightarrow> event list \<times> (abort + unit)" where
  "remove_partition e dev n =
     (case init e dev True of
        (t, Inl a) \<Rightarrow> (t, Inl a)
      | (t, Inr None) \<Rightarrow> (t, Inr ())
      | (t, Inr (Some (gpt, fd))) \<Rightarrow>
          if n \<ge> int (PARTITIONS_COUNT e) then (t, Inr ())
          else if n < 0 \<or> int (length (partitions gpt)) \<le> n then (t, Inl OutOfBoundsRead)
          else
            (case partitions gpt ! nat n of
               None \<Rightarrow> (t, Inr ())
             | Some p \<Rightarrow>
                 (case deref gpt p of
                    Inl a \<Rightarrow> (t, Inl a)
                  | Inr entry \<Rightarrow>
                      (case gpt_partition_remove e gpt (guid_p entry) of (rc, gpt1) \<Rightarrow>
                         if rc = 0 then
                           (case deref gpt1 p of
                              Inl a \<Rightarrow> (t @ [Gpt_partition_remove gpt (guid_p entry)], Inl a)
                            | Inr entry1 \<Rightarrow>
                                (case utf16_to_cstring (stack_name e) (name_p entry1) 36 of
                                   Inl a \<Rightarrow>
                                     (t @ [Gpt_partition_remove gpt (guid_p entry)], Inl a)
                                 | Inr buf \<Rightarrow>
                                     (case printf_s buf of
                                        Inl a \<Rightarrow>
                                          (t @ [Gpt_partition_remove gpt (guid_p entry)], Inl a)
                                      | Inr s \<Rightarrow>
                                          (case commit e gpt1 fd of (tc, gpt2) \<Rightarrow>
                                             (t @ [Gpt_partition_remove gpt (guid_p entry),
                                                   Printf_remove n s] @ tc @
                                                [Gpt_device_release gpt2, Close fd],
                                              Inr ())))))
                         else
                           (t @ [Gpt_partition_remove gpt (guid_p entry),
                                 Gpt_device_release gpt1, Close fd], Inr ())))))"

section \<open>Reference definitions and observations\<close>

subsection \<open>Identifier text\<close>

text \<open>
  The 16 bytes in the order in which the program prints them: every one of the five
  groups byte-reversed.
\<close>

definition guid_bytes_printed :: "u8 list \<Rightarrow> u8 list" where
  "guid_bytes_printed src =
     rev (take 4 src) @ rev (take 2 (drop 4 src)) @ rev (take 2 (drop 6 src)) @
     rev (take 2 (drop 8 src)) @ rev (drop 10 src)"

text \<open>
  The order the specification describes: the first 4 bytes reversed, the next 2
  reversed, the next 2 reversed, the remaining 8 in their original order.
\<close>

definition guid_bytes_specified :: "u8 list \<Rightarrow> u8 list" where
  "guid_bytes_specified src =
     rev (take 4 src) @ rev (take 2 (drop 4 src)) @ rev (take 2 (drop 6 src)) @ drop 8 src"

definition hex_bytes :: "u8 list \<Rightarrow> string" where
  "hex_bytes bs = concat (map hex2 bs)"

text \<open>Hexadecimal text with hyphens after 4, 2, 2 and 2 bytes.\<close>

definition hyphenated :: "u8 list \<Rightarrow> string" where
  "hyphenated bs =
     hex_bytes (take 4 bs) @ ''-'' @ hex_bytes (take 2 (drop 4 bs)) @ ''-'' @
     hex_bytes (take 2 (drop 6 bs)) @ ''-'' @ hex_bytes (take 2 (drop 8 bs)) @ ''-'' @
     hex_bytes (drop 10 bs)"

subsection \<open>Observations on a run\<close>

text \<open>The calls that change the table: on the device (sync) or in memory (add, remove).\<close>

fun is_table_call :: "event \<Rightarrow> bool" where
  "is_table_call (Gpt_device_sync g) = True"
| "is_table_call (Gpt_partition_add g n t u f b fl) = True"
| "is_table_call (Gpt_partition_remove g u) = True"
| "is_table_call _ = False"

text \<open>The three steps of a commit: its message, the sync and the re-read notification.\<close>

fun is_commit_event :: "event \<Rightarrow> bool" where
  "is_commit_event Printf_commit = True"
| "is_commit_event (Gpt_device_sync g) = True"
| "is_commit_event (Ioctl_rr_part fd) = True"
| "is_commit_event _ = False"

fun is_open :: "event \<Rightarrow> bool" where
  "is_open (Open_rdwr d fd) = True"
| "is_open _ = False"

fun is_close :: "event \<Rightarrow> bool" where
  "is_close (Close fd) = True"
| "is_close _ = False"

fun is_release :: "event \<Rightarrow> bool" where
  "is_release (Gpt_device_release g) = True"
| "is_release _ = False"

text \<open>
  A table handle as \<^verbatim>\<open>gpt/gpt.h\<close> types it: \<open>PARTITIONS_COUNT\<close> slots, and every
  pointer in a slot refers to an entry with a name of 36 units and an identifier of 16
  bytes.
\<close>

definition slot_ok :: "gpt_device \<Rightarrow> nat option \<Rightarrow> bool" where
  "slot_ok gpt s =
     (case s of
        None \<Rightarrow> True
      | Some p \<Rightarrow>
          p < length (memory gpt) \<and> length (name_p (memory gpt ! p)) = 36 \<and>
          length (guid_p (memory gpt ! p)) = 16)"

definition table_ok :: "env \<Rightarrow> gpt_device \<Rightarrow> bool" where
  "table_ok e gpt =
     (length (partitions gpt) = PARTITIONS_COUNT e \<and> list_all (slot_ok gpt) (partitions gpt))"

text \<open>
  Modelled from the spec: the table handle that \<open>gpt_device_init\<close> of the GPT library
  (\<^verbatim>\<open>gpt/gpt.h\<close>, not part of \<^verbatim>\<open>gpt.c\<close>) yields for a device. It has
  \<open>PARTITIONS_COUNT\<close> slots, and a table that is not valid holds no partition: the
  invalid table is "the expected starting state for a fresh/uninitialized device", with
  "no partitions to remove".
\<close>

definition loaded_table_ok :: "env \<Rightarrow> gpt_device \<Rightarrow> bool" where
  "loaded_table_ok e gpt =
     (length (partitions gpt) = PARTITIONS_COUNT e \<and>
      (valid gpt \<or> list_all (\<lambda>s. s = None) (partitions gpt)))"

text \<open>
  Modelled from the spec: what \<open>gpt_device_sync\<close> of the GPT library leaves of the handle
  \<open>gpt\<close> in memory. A freshly committed table is valid ("the validity flag is false until
  a table has been successfully loaded or freshly committed"), and the commit
  "serialize[s] the in-memory table back to the device", so the slots stay as they were.
\<close>

definition committed_table_ok :: "env \<Rightarrow> gpt_device \<Rightarrow> bool" where
  "committed_table_ok e gpt =
     (valid (gpt_device_sync e gpt) \<and>
      partitions (gpt_device_sync e gpt) = partitions gpt)"

text \<open>The slots before the first empty one.\<close>

definition occupied_prefix :: "gpt_device \<Rightarrow> nat list" where
  "occupied_prefix gpt = map the (takeWhile (\<lambda>s. s \<noteq> None) (partitions gpt))"

text \<open>The line of the listing for slot \<open>i\<close> holding the entry \<open>p\<close>.\<close>

definition partition_line :: "nat \<Rightarrow> gpt_partition \<Rightarrow> event" where
  "partition_line i p =
     Printf_partition (int i) (kept_chars (name_p p)) (first_p p) (last_p p)
       (last_p p - first_p p + 1) (hyphenated (guid_bytes_printed (guid_p p)))"

subsection \<open>Example inputs\<close>

text \<open>\<^verbatim>\<open>#define DEFAULT_BLOCKDEV "/dev/class/block/000"\<close>\<close>

definition DEFAULT_BLOCKDEV :: string where
  "DEFAULT_BLOCKDEV = ''/dev/class/block/000''"

definition ex_guid :: "u8 list" where
  "ex_guid = [0, 1, 2, 3, 4, 5, 6, 7, 8, 9, 10, 11, 12, 13, 14, 15]"

definition ex_guid2 :: "u8 list" where
  "ex_guid2 = [0xA2, 0xA0, 0xD0, 0xEB, 0xE5, 0xB9, 0x33, 0x44,
               0x87, 0xC0, 0x68, 0xB6, 0xB7, 0x26, 0x99, 0xC7]"

text \<open>The name \<^verbatim>\<open>EFI\<close>, and a name with units outside ASCII.\<close>

definition ex_name :: "u16 list" where
  "ex_name = [0x45, 0x46, 0x49] @ replicate 33 0"

definition ex_name2 :: "u16 list" where
  "ex_name2 = [0x45, 0x141, 0x100, 0xC9, 0x80] @ replicate 31 0"

definition ex_entry :: gpt_partition where
  "ex_entry = \<lparr>name_p = ex_name, guid_p = ex_guid, first_p = 34, last_p = 2081\<rparr>"

definition ex_entry2 :: gpt_partition where
  "ex_entry2 = \<lparr>name_p = ex_name2, guid_p = ex_guid2, first_p = 2082, last_p = 4129\<rparr>"

definition ex_table :: "bool \<Rightarrow> nat option list \<Rightarrow> gpt_device" where
  "ex_table v slots = \<lparr>valid = v, partitions = slots, memory = [ex_entry, ex_entry2]\<rparr>"

text \<open>
  Three tables of four slots: two partitions in the first two slots; the same two
  partitions with an empty slot between them; no valid table and no partition.
\<close>

definition ex_two :: gpt_device where
  "ex_two = ex_table True [Some 0, Some 1, None, None]"

definition ex_gap :: gpt_device where
  "ex_gap = ex_table True [Some 0, None, Some 1, None]"

definition ex_blank :: gpt_device where
  "ex_blank = ex_table False [None, None, None, None]"

text \<open>
  A device of 16384 blocks of 512 bytes with four slots, the table \<open>gpt\<close> on it and the
  keys \<open>keys\<close> typed. The library of the example marks a synced table valid, adds with
  the status \<open>add_rc\<close>, and removes the entry with the given identifier by clearing its
  slot.
\<close>

definition ex_remove :: "gpt_device \<Rightarrow> u8 list \<Rightarrow> int \<times> gpt_device" where
  "ex_remove g u =
     (if u \<in> set (map guid_p (memory g)) then
        (0, g\<lparr>partitions :=
                 map (\<lambda>s. case s of None \<Rightarrow> None
                           | Some p \<Rightarrow> if guid_p (memory g ! p) = u then None else Some p)
                   (partitions g)\<rparr>)
      else (- 1, g))"

definition ex_env :: "gpt_device \<Rightarrow> (int \<times> u8) list \<Rightarrow> int \<Rightarrow> u8 list \<Rightarrow> env" where
  "ex_env gpt keys add_rc stack =
     \<lparr>PARTITIONS_COUNT = 4,
      stdin_reads = keys,
      open_rdwr = (\<lambda>dev. 3),
      ioctl_get_blocksize = (\<lambda>fd. (0, 512)),
      ioctl_get_size = (\<lambda>fd. (0, 8388608)),
      gpt_device_init = (\<lambda>fd bs n. (0, gpt)),
      gpt_device_sync = (\<lambda>g. g\<lparr>valid := True\<rparr>),
      gpt_partition_add = (\<lambda>g n t u f b fl. (add_rc, g)),
      gpt_partition_remove = ex_remove,
      mx_cprng_draw = (\<lambda>n. replicate n 7),
      stack_name = stack\<rparr>"

text \<open>
  Uninitialised stack content for \<open>name\<close>: the bytes \<^verbatim>\<open>junk!\<close>, a null byte, then
  31 times \<^verbatim>\<open>A\<close>.
\<close>

definition ex_stack :: "u8 list" where
  "ex_stack = [0x6A, 0x75, 0x6E, 0x6B, 0x21, 0] @ replicate 31 0x41"

text \<open>The same device answering the block-size query with 0.\<close>

definition ex_env_blocksize0 :: env where
  "ex_env_blocksize0 =
     (ex_env ex_blank [(1, 10)] 0 (replicate 37 0))
       \<lparr>ioctl_get_blocksize := (\<lambda>fd. (0, 0))\<rparr>"

section \<open>Properties\<close>

subsection \<open>The name decoder\<close>

lemma kept_chars_Cons:
  "kept_chars (u # us) = (if low7 u = 0 then kept_chars us else low7 u # kept_chars us)"
  by (simp add: kept_chars_def)

lemma drop_take_step:
  "i < len \<Longrightarrow> len \<le> length src \<Longrightarrow>
   drop i (take len src) = src ! i # drop (Suc i) (take len src)"
  using Cons_nth_drop_Suc [of i "take len src"] by simp

text \<open>
  The loop invariant: with \<open>i\<close> units read and \<open>ptr\<close> bytes written, the loop writes the
  characters kept from the remaining units at \<open>ptr\<close> and leaves every other byte of
  the buffer as it was.
\<close>

lemma utf16_loop_kept:
  "len \<le> length src \<Longrightarrow>
   ptr + length (kept_chars (drop i (take len src))) \<le> length dst \<Longrightarrow>
   utf16_loop dst src len i ptr =
     Inr (take ptr dst @ kept_chars (drop i (take len src)) @
          drop (ptr + length (kept_chars (drop i (take len src)))) dst)"
proof (induction dst src len i ptr rule: utf16_loop.induct)
  case (1 dst src len i ptr)
  show ?case
  proof (cases "i < len")
    case False
    then show ?thesis
      by (subst utf16_loop.simps) (simp add: kept_chars_def)
  next
    case True
    with "1.prems" have isrc: "\<not> length src \<le> i" by simp
    have step: "drop i (take len src) = src ! i # drop (Suc i) (take len src)"
      using True "1.prems"(1) by (rule drop_take_step)
    show ?thesis
    proof (cases "low7 (src ! i) = 0")
      case z: True
      have "utf16_loop dst src len i ptr = utf16_loop dst src len (i + 1) ptr"
        using True isrc z by (subst utf16_loop.simps) (simp add: low7_def)
      also have "\<dots> = Inr (take ptr dst @ kept_chars (drop (i + 1) (take len src)) @
          drop (ptr + length (kept_chars (drop (i + 1) (take len src)))) dst)"
        using "1.IH"(1) [OF True isrc refl] z "1.prems" step
        by (simp add: low7_def kept_chars_Cons)
      finally show ?thesis using z step by (simp add: kept_chars_Cons)
    next
      case nz: False
      define c where "c = low7 (src ! i)"
      define k where "k = length (kept_chars (drop (i + 1) (take len src)))"
      have len_eq: "length (kept_chars (drop i (take len src))) = Suc k"
        using nz step by (simp add: kept_chars_Cons k_def)
      with "1.prems"(2) have ptr: "\<not> length dst \<le> ptr" and room: "ptr + 1 + k \<le> length dst"
        by simp_all
      have "utf16_loop dst src len i ptr = utf16_loop (dst[ptr := c]) src len (i + 1) (ptr + 1)"
        using True isrc nz ptr by (subst utf16_loop.simps) (simp add: low7_def c_def Let_def)
      also have "\<dots> = Inr (take (ptr + 1) (dst[ptr := c]) @
          kept_chars (drop (i + 1) (take len src)) @ drop (ptr + 1 + k) (dst[ptr := c]))"
        using "1.IH"(2) [OF True isrc refl _ ptr] nz "1.prems"(1) room
        by (simp add: low7_def c_def k_def)
      also have "take (ptr + 1) (dst[ptr := c]) = take ptr dst @ [c]"
        using ptr by (simp add: take_Suc_conv_app_nth)
      also have "drop (ptr + 1 + k) (dst[ptr := c]) = drop (ptr + 1 + k) dst"
        by simp
      finally show ?thesis
        using nz step len_eq by (simp add: kept_chars_Cons c_def k_def)
    qed
  qed
qed

lemma low7_alt: "low7 u = (ucast u :: u8) AND 0x7f"
  unfolding low7_def by (simp add: unsigned_and_eq)

lemma kept_chars_alt:
  "kept_chars src = filter (\<lambda>c. c \<noteq> 0) (map (\<lambda>u. (ucast u :: u8) AND 0x7f) src)"
  by (simp add: kept_chars_def low7_alt [abs_def])

lemma kept_chars_nonzero: "0 \<notin> set (kept_chars src)"
  by (simp add: kept_chars_def)

lemma length_kept_chars: "length (kept_chars src) \<le> length src"
  by (simp add: kept_chars_def)

lemma low7_bound: "unat (low7 u) < 128"
proof -
  have "unat ((ucast u :: u8) AND 0x7f) \<le> unat (0x7f :: u8)"
    by (rule word_and_le1 [THEN word_le_nat_alt [THEN iffD1]])
  then show ?thesis by (simp add: low7_alt)
qed

lemma utf16_to_cstring_kept:
  assumes "len \<le> length src" and "length (kept_chars (take len src)) \<le> length dst"
  shows "utf16_to_cstring dst src len =
           Inr (kept_chars (take len src) @ drop (length (kept_chars (take len src))) dst)"
  using utf16_loop_kept [of len src 0 0 dst] assms by (simp add: utf16_to_cstring_def)

lemma printf_s_terminated:
  assumes "0 \<notin> set s"
  shows "printf_s (s @ 0 # rest) = Inr s"
  using assms by (auto simp: printf_s_def takeWhile_tail)

text \<open>
  C7. For a name field of 36 code units, decoded into the zeroed 37-byte buffer of the
  listing: the text displayed is the low byte of every unit truncated to 7 bits
  (\<open>ucast u AND 0x7f\<close>), without the units this leaves null, in the order of the units;
  every character is below 128.
\<close>

theorem utf16_to_cstring_display_name:
  assumes "length src = 36"
  shows "filter (\<lambda>c. c \<noteq> 0) (map (\<lambda>u. (ucast u :: u8) AND 0x7f) src) = kept_chars src \<and>
         list_all (\<lambda>c. unat c < 128) (kept_chars src) \<and>
         utf16_to_cstring (replicate 37 0) src 36 =
           Inr (kept_chars src @ replicate (37 - length (kept_chars src)) 0) \<and>
         printf_s (kept_chars src @ replicate (37 - length (kept_chars src)) 0) =
           Inr (kept_chars src)"
proof -
  have k: "length (kept_chars src) \<le> 36"
    using length_kept_chars [of src] assms by simp
  have bound: "list_all (\<lambda>c. unat c < 128) (kept_chars src)"
    by (auto simp: kept_chars_def list_all_iff low7_bound)
  have run: "utf16_to_cstring (replicate 37 0) src 36 =
      Inr (kept_chars src @ replicate (37 - length (kept_chars src)) 0)"
    using utf16_to_cstring_kept [of 36 src "replicate 37 0"] assms k by simp
  have "replicate (37 - length (kept_chars src)) (0 :: u8) =
      0 # replicate (36 - length (kept_chars src)) 0"
    using k by (simp add: Suc_diff_le flip: replicate_Suc)
  then have shown: "printf_s (kept_chars src @ replicate (37 - length (kept_chars src)) 0) =
      Inr (kept_chars src)"
    using printf_s_terminated [OF kept_chars_nonzero] by simp
  from kept_chars_alt [of src] bound run shown show ?thesis by simp
qed

theorem utf16_to_cstring_display_name_witness:
  "length ex_name2 = 36 \<and>
   kept_chars ex_name2 = [0x45, 0x41, 0x49] \<and>
   utf16_to_cstring (replicate 37 0) ex_name2 36 = Inr ([0x45, 0x41, 0x49] @ replicate 34 0) \<and>
   printf_s ([0x45, 0x41, 0x49] @ replicate 34 0) = Inr [0x45, 0x41, 0x49]"
proof -
  have len: "length ex_name2 = 36" by (simp add: ex_name2_def)
  have kept: "kept_chars ex_name2 = [0x45, 0x41, 0x49]"
    by (simp add: ex_name2_def kept_chars_def low7_def)
  show ?thesis
    using utf16_to_cstring_display_name [OF len] len kept by simp
qed

text \<open>The example names decoded.\<close>

lemma ex_name_length: "length ex_name = 36" "length ex_name2 = 36"
  by (simp_all add: ex_name_def ex_name2_def)

lemma ex_kept_chars:
  "kept_chars ex_name = [0x45, 0x46, 0x49]"
  "kept_chars ex_name2 = [0x45, 0x41, 0x49]"
  by (simp_all add: ex_name_def ex_name2_def kept_chars_def low7_def)

subsection \<open>The identifier text\<close>

lemma list16:
  assumes "length (src :: 'a list) = 16"
  obtains a0 a1 a2 a3 a4 a5 a6 a7 a8 a9 a10 a11 a12 a13 a14 a15
  where "src = [a0, a1, a2, a3, a4, a5, a6, a7, a8, a9, a10, a11, a12, a13, a14, a15]"
  using assms by (auto simp: length_Suc_conv numeral_eq_Suc)

text \<open>For 16 bytes, the program prints every group byte-reversed, the last two included.\<close>

lemma guid_to_cstring_printed:
  assumes "length src = 16"
  shows "guid_to_cstring src = Inr (hyphenated (guid_bytes_printed src))"
proof -
  from assms obtain a0 a1 a2 a3 a4 a5 a6 a7 a8 a9 a10 a11 a12 a13 a14 a15
    where src: "src = [a0, a1, a2, a3, a4, a5, a6, a7, a8, a9, a10, a11, a12, a13, a14, a15]"
    by (rule list16)
  show ?thesis
    unfolding src
    by (simp add: guid_to_cstring_def hyphenated_def guid_bytes_printed_def hex_bytes_def)
qed

lemma ex_guid_text:
  "hyphenated (guid_bytes_printed ex_guid) = ''03020100-0504-0706-0908-0F0E0D0C0B0A''"
  "hyphenated (guid_bytes_printed ex_guid2) = ''EBD0A0A2-B9E5-4433-C087-C79926B7B668''"
  by (simp_all add: hyphenated_def guid_bytes_printed_def hex_bytes_def hex2_def hex_digit_def
      ex_guid_def ex_guid2_def)

text \<open>
  C4. The identifier stored as \<^verbatim>\<open>A2 A0 D0 EB E5 B9 33 44 87 C0 68 B6 B7 26 99 C7\<close> is, in
  the order the specification describes (the remaining 8 bytes in their original order),
  \<^verbatim>\<open>EBD0A0A2-B9E5-4433-87C0-68B6B72699C7\<close>; the program reverses the last two groups as
  well and prints \<^verbatim>\<open>EBD0A0A2-B9E5-4433-C087-C79926B7B668\<close>.
\<close>

theorem guid_to_cstring_known_identifier:
  "guid_to_cstring ex_guid2 = Inr ''EBD0A0A2-B9E5-4433-C087-C79926B7B668'' \<and>
   hyphenated (guid_bytes_specified ex_guid2) = ''EBD0A0A2-B9E5-4433-87C0-68B6B72699C7''"
  by (simp add: guid_to_cstring_def hyphenated_def guid_bytes_specified_def hex_bytes_def
      hex2_def hex_digit_def ex_guid2_def)

subsection \<open>Opening the session\<close>

lemma init_open_no_table_call: "filter is_table_call (fst (init_open e dev)) = []"
  by (simp add: init_open_def Let_def split: prod.splits)

lemma init_no_table_call: "filter is_table_call (fst (init e dev warn)) = []"
  using init_open_no_table_call [of e dev]
  by (auto simp: init_def split: sum.splits prod.splits)

lemma init_open_no_commit_event: "filter is_commit_event (fst (init_open e dev)) = []"
  by (simp add: init_open_def Let_def split: prod.splits)

lemma init_no_commit_event: "filter is_commit_event (fst (init e dev warn)) = []"
  using init_open_no_commit_event [of e dev]
  by (auto simp: init_def split: sum.splits prod.splits)

lemma init_declined:
  assumes "cgetc (stdin_reads e) \<noteq> Inr 10"
  shows "init e dev True =
           ([Printf_using dev],
            case cgetc (stdin_reads e) of Inl a \<Rightarrow> Inl a | Inr c \<Rightarrow> Inr None)"
  using assms by (simp add: init_def split: sum.splits)

lemma init_confirmed:
  assumes "cgetc (stdin_reads e) = Inr 10"
  shows "init e dev True = (Printf_using dev # fst (init_open e dev), snd (init_open e dev))"
  using assms by (simp add: init_def split: prod.splits)

lemma init_open_starts: "\<exists>t. fst (init_open e dev) = Open_rdwr dev (open_rdwr e dev) # t"
  by (simp add: init_open_def Let_def split: prod.splits)

lemma add_partition_prefix:
  "\<exists>rest. fst (add_partition e dev offset blocks name) = fst (init e dev True) @ rest"
proof (cases "init e dev True")
  case (Pair t r)
  show ?thesis
  proof (cases r)
    case (Inl a)
    with Pair show ?thesis by (simp add: add_partition_def)
  next
    case (Inr x)
    show ?thesis
    proof (cases x)
      case None
      with Pair Inr show ?thesis by (simp add: add_partition_def)
    next
      case (Some gf)
      with Pair Inr show ?thesis
        by (cases gf) (simp add: add_partition_def Let_def split: prod.splits)
    qed
  qed
qed

lemma remove_partition_prefix:
  "\<exists>rest. fst (remove_partition e dev n) = fst (init e dev True) @ rest"
proof (cases "init e dev True")
  case (Pair t r)
  show ?thesis
  proof (cases r)
    case (Inl a)
    with Pair show ?thesis by (simp add: remove_partition_def)
  next
    case (Inr x)
    show ?thesis
    proof (cases x)
      case None
      with Pair Inr show ?thesis by (simp add: remove_partition_def)
    next
      case (Some gf)
      with Pair Inr show ?thesis
        by (cases gf)
          (simp add: remove_partition_def split: prod.splits sum.splits option.splits)
    qed
  qed
qed

lemma init_open_no_remove_line: "Printf_remove n s \<notin> set (fst (init_open e dev))"
  by (simp add: init_open_def Let_def split: prod.splits)

lemma init_no_remove_line: "Printf_remove n s \<notin> set (fst (init e dev warn))"
  using init_open_no_remove_line [of n s e dev]
  by (auto simp: init_def split: sum.splits prod.splits)

text \<open>The session of the example device.\<close>

lemma ex_env_fields:
  "PARTITIONS_COUNT (ex_env g keys rc stack) = 4"
  "gpt_device_sync (ex_env g keys rc stack) h = h\<lparr>valid := True\<rparr>"
  "gpt_partition_add (ex_env g keys rc stack) h nm ty u f b fl = (rc, h)"
  "gpt_partition_remove (ex_env g keys rc stack) = ex_remove"
  "mx_cprng_draw (ex_env g keys rc stack) k = replicate k 7"
  "stack_name (ex_env g keys rc stack) = stack"
  by (simp_all add: ex_env_def)

lemma ex_table_fields:
  "valid (ex_table v slots) = v"
  "partitions (ex_table v slots) = slots"
  "memory (ex_table v slots) = [ex_entry, ex_entry2]"
  by (simp_all add: ex_table_def)

lemma ex_init_open:
  "init_open (ex_env gpt keys rc stack) dev =
     ([Open_rdwr dev 3, Ioctl_get_blocksize 3, Ioctl_get_size 3, Printf_geometry 512 16384,
       Gpt_device_init 3 512 16384], Inr (Some (gpt, 3)))"
  by (simp add: init_open_def ex_env_def)

lemma ex_init_listing:
  "init (ex_env gpt keys rc stack) dev False =
     ([Open_rdwr dev 3, Ioctl_get_blocksize 3, Ioctl_get_size 3, Printf_geometry 512 16384,
       Gpt_device_init 3 512 16384], Inr (Some (gpt, 3)))"
  by (simp add: init_def ex_init_open)

lemma ex_cgetc_enter: "cgetc (stdin_reads (ex_env gpt ((1, 10) # keys) rc stack)) = Inr 10"
  by (simp add: ex_env_def)

lemma ex_init_enter:
  "init (ex_env gpt ((1, 10) # keys) rc stack) dev True =
     ([Printf_using dev, Open_rdwr dev 3, Ioctl_get_blocksize 3, Ioctl_get_size 3,
       Printf_geometry 512 16384, Gpt_device_init 3 512 16384], Inr (Some (gpt, 3)))"
  using init_confirmed [OF ex_cgetc_enter, of gpt keys rc stack dev]
  by (simp add: ex_init_open)

text \<open>
  C8. In add and in remove, the session is opened only when \<open>cgetc\<close> returns 10: then the
  run goes on to \<^verbatim>\<open>open\<close>. For any other byte, a read error or no input at all, the
  whole run is the prompt: the device is never opened and nothing is written to it.
\<close>

theorem confirmation_gate:
  "(cgetc (stdin_reads e) = Inr 10 \<longrightarrow>
      take 2 (fst (add_partition e dev offset blocks name)) =
        [Printf_using dev, Open_rdwr dev (open_rdwr e dev)] \<and>
      take 2 (fst (remove_partition e dev n)) =
        [Printf_using dev, Open_rdwr dev (open_rdwr e dev)]) \<and>
   (cgetc (stdin_reads e) \<noteq> Inr 10 \<longrightarrow>
      fst (add_partition e dev offset blocks name) = [Printf_using dev] \<and>
      fst (remove_partition e dev n) = [Printf_using dev])"
proof (cases "cgetc (stdin_reads e) = Inr 10")
  case True
  obtain t where t: "fst (init_open e dev) = Open_rdwr dev (open_rdwr e dev) # t"
    using init_open_starts by blast
  have i: "fst (init e dev True) = Printf_using dev # Open_rdwr dev (open_rdwr e dev) # t"
    using init_confirmed [OF True, of dev] t by simp
  obtain ra where "fst (add_partition e dev offset blocks name) = fst (init e dev True) @ ra"
    using add_partition_prefix by blast
  with i have a: "take 2 (fst (add_partition e dev offset blocks name)) =
      [Printf_using dev, Open_rdwr dev (open_rdwr e dev)]"
    by (simp add: numeral_2_eq_2)
  obtain rr where "fst (remove_partition e dev n) = fst (init e dev True) @ rr"
    using remove_partition_prefix by blast
  with i have r: "take 2 (fst (remove_partition e dev n)) =
      [Printf_using dev, Open_rdwr dev (open_rdwr e dev)]"
    by (simp add: numeral_2_eq_2)
  from True a r show ?thesis by simp
next
  case False
  then show ?thesis
    using init_declined [OF False, of dev]
    by (simp add: add_partition_def remove_partition_def split: sum.splits)
qed

text \<open>
  On the example device: a read that returns nothing and then the newline opens the
  session; the key \<^verbatim>\<open>y\<close> (121) ends the run after the prompt.
\<close>

theorem confirmation_gate_witness:
  "cgetc (stdin_reads (ex_env ex_two [(0, 0), (1, 10)] 0 ex_stack)) = Inr 10 \<and>
   take 2 (fst (add_partition (ex_env ex_two [(0, 0), (1, 10)] 0 ex_stack)
     DEFAULT_BLOCKDEV 4130 2048 ''data'')) =
     [Printf_using DEFAULT_BLOCKDEV, Open_rdwr DEFAULT_BLOCKDEV 3] \<and>
   take 2 (fst (remove_partition (ex_env ex_two [(0, 0), (1, 10)] 0 ex_stack)
     DEFAULT_BLOCKDEV 0)) =
     [Printf_using DEFAULT_BLOCKDEV, Open_rdwr DEFAULT_BLOCKDEV 3] \<and>
   cgetc (stdin_reads (ex_env ex_two [(1, 121)] 0 ex_stack)) = Inr 121 \<and>
   fst (add_partition (ex_env ex_two [(1, 121)] 0 ex_stack) DEFAULT_BLOCKDEV 4130 2048 ''data'') =
     [Printf_using DEFAULT_BLOCKDEV] \<and>
   fst (remove_partition (ex_env ex_two [(1, 121)] 0 ex_stack) DEFAULT_BLOCKDEV 0) =
     [Printf_using DEFAULT_BLOCKDEV]"
proof -
  have yes: "cgetc (stdin_reads (ex_env ex_two [(0, 0), (1, 10)] 0 ex_stack)) = Inr 10"
    by (simp add: ex_env_def)
  have no: "cgetc (stdin_reads (ex_env ex_two [(1, 121)] 0 ex_stack)) = Inr 121"
    by (simp add: ex_env_def)
  have op: "open_rdwr (ex_env ex_two [(0, 0), (1, 10)] 0 ex_stack) DEFAULT_BLOCKDEV = 3"
    by (simp add: ex_env_def)
  show ?thesis
    using confirmation_gate [of "ex_env ex_two [(0, 0), (1, 10)] 0 ex_stack"
        DEFAULT_BLOCKDEV 4130 2048 "''data''" 0]
      confirmation_gate [of "ex_env ex_two [(1, 121)] 0 ex_stack"
        DEFAULT_BLOCKDEV 4130 2048 "''data''" 0]
    unfolding yes no op by simp
qed

text \<open>
  C9. \<open>init\<close> divides the device size by the block size it was given, with no test of
  the divisor: whenever the device is opened and both queries succeed, a block size of
  0 is the divisor of \<^verbatim>\<open>blocks /= blocksize\<close>.
\<close>

theorem init_divides_by_unchecked_blocksize:
  assumes "warn \<longrightarrow> cgetc (stdin_reads e) = Inr 10"
    and "0 \<le> open_rdwr e dev"
    and "ioctl_get_blocksize e (open_rdwr e dev) = (rc, 0)" and "0 \<le> rc"
    and "ioctl_get_size e (open_rdwr e dev) = (rc2, sz)" and "0 \<le> rc2"
  shows "snd (init e dev warn) = Inl DivideByZero"
  using assms by (cases warn) (simp_all add: init_def init_open_def Let_def)

theorem init_divides_by_unchecked_blocksize_witness:
  "cgetc (stdin_reads ex_env_blocksize0) = Inr 10 \<and>
   open_rdwr ex_env_blocksize0 DEFAULT_BLOCKDEV = 3 \<and>
   ioctl_get_blocksize ex_env_blocksize0 3 = (0, 0) \<and>
   ioctl_get_size ex_env_blocksize0 3 = (0, 8388608) \<and>
   snd (init ex_env_blocksize0 DEFAULT_BLOCKDEV True) = Inl DivideByZero \<and>
   snd (init ex_env_blocksize0 DEFAULT_BLOCKDEV False) = Inl DivideByZero"
proof -
  have k: "cgetc (stdin_reads ex_env_blocksize0) = Inr 10"
    and o: "open_rdwr ex_env_blocksize0 DEFAULT_BLOCKDEV = 3"
    and b: "ioctl_get_blocksize ex_env_blocksize0
              (open_rdwr ex_env_blocksize0 DEFAULT_BLOCKDEV) = (0, 0)"
    and s: "ioctl_get_size ex_env_blocksize0
              (open_rdwr ex_env_blocksize0 DEFAULT_BLOCKDEV) = (0, 8388608)"
    by (simp_all add: ex_env_blocksize0_def ex_env_def)
  have "snd (init ex_env_blocksize0 DEFAULT_BLOCKDEV True) = Inl DivideByZero"
    using k o by (intro init_divides_by_unchecked_blocksize [OF _ _ b _ s]) simp_all
  moreover have "snd (init ex_env_blocksize0 DEFAULT_BLOCKDEV False) = Inl DivideByZero"
    using o by (intro init_divides_by_unchecked_blocksize [OF _ _ b _ s]) simp_all
  ultimately show ?thesis using k o b s by simp
qed

subsection \<open>The listing\<close>

lemma print_partition_line:
  assumes "length (name_p p) = 36" and "length (guid_p p) = 16"
  shows "print_partition i p = Inr (partition_line i p)"
proof -
  have k: "length (kept_chars (name_p p)) \<le> 36"
    using length_kept_chars [of "name_p p"] assms by simp
  have run: "utf16_to_cstring (replicate 37 0) (name_p p) 36 =
      Inr (kept_chars (name_p p) @ 0 # replicate (36 - length (kept_chars (name_p p))) 0)"
    using utf16_to_cstring_kept [of 36 "name_p p" "replicate 37 0"] assms k
    by (simp add: Suc_diff_le flip: replicate_Suc)
  show ?thesis
    using run printf_s_terminated [OF kept_chars_nonzero] guid_to_cstring_printed [OF assms(2)]
    by (simp add: print_partition_def partition_line_def)
qed

text \<open>From slot \<open>i\<close> on, the loop prints the slots up to the next empty one and stops there.\<close>

lemma dump_loop_lines:
  assumes "table_ok e gpt" and "i \<le> PARTITIONS_COUNT e"
  shows "dump_loop e gpt i =
           (map (\<lambda>(j, p). partition_line j (memory gpt ! p))
              (enumerate i (map the (takeWhile (\<lambda>s. s \<noteq> None) (drop i (partitions gpt))))),
            Inr (i + length (takeWhile (\<lambda>s. s \<noteq> None) (drop i (partitions gpt)))))"
  using assms
proof (induction e gpt i rule: dump_loop.induct)
  case (1 e gpt i)
  from "1.prems" have len: "length (partitions gpt) = PARTITIONS_COUNT e"
    and ok: "list_all (slot_ok gpt) (partitions gpt)"
    by (simp_all add: table_ok_def)
  show ?case
  proof (cases "i < PARTITIONS_COUNT e")
    case False
    with "1.prems" len show ?thesis
      by (subst dump_loop.simps) simp
  next
    case True
    with len have inb: "\<not> length (partitions gpt) \<le> i" by simp
    then have step: "drop i (partitions gpt) = partitions gpt ! i # drop (Suc i) (partitions gpt)"
      by (simp add: Cons_nth_drop_Suc)
    show ?thesis
    proof (cases "partitions gpt ! i")
      case None
      with True inb step show ?thesis
        by (subst dump_loop.simps) simp
    next
      case (Some p)
      from ok inb have "slot_ok gpt (partitions gpt ! i)"
        by (simp add: list_all_length)
      with Some have p: "p < length (memory gpt)"
        and n: "length (name_p (memory gpt ! p)) = 36"
        and g: "length (guid_p (memory gpt ! p)) = 16"
        by (simp_all add: slot_ok_def)
      have d: "deref gpt p = Inr (memory gpt ! p)"
        using p by (simp add: deref_def)
      have l: "print_partition i (memory gpt ! p) = Inr (partition_line i (memory gpt ! p))"
        using n g by (rule print_partition_line)
      have ih: "dump_loop e gpt (i + 1) =
          (map (\<lambda>(j, p). partition_line j (memory gpt ! p))
             (enumerate (i + 1)
                (map the (takeWhile (\<lambda>s. s \<noteq> None) (drop (i + 1) (partitions gpt))))),
           Inr (i + 1 + length (takeWhile (\<lambda>s. s \<noteq> None) (drop (i + 1) (partitions gpt)))))"
        using "1.IH" [OF True inb Some d l "1.prems"(1)] True by simp
      show ?thesis
        using True inb Some d l ih step
        by (subst dump_loop.simps) simp
    qed
  qed
qed

lemma ex_tables_ok:
  "table_ok (ex_env g keys rc stack) ex_two"
  "table_ok (ex_env g keys rc stack) ex_gap"
  by (simp_all add: table_ok_def slot_ok_def ex_env_def ex_two_def ex_gap_def ex_table_def
      ex_entry_def ex_entry2_def ex_name_def ex_name2_def ex_guid_def ex_guid2_def)

lemma ex_lines:
  "partition_line 0 ex_entry =
     Printf_partition 0 [0x45, 0x46, 0x49] 34 2081 2048 ''03020100-0504-0706-0908-0F0E0D0C0B0A''"
  "partition_line (Suc 0) ex_entry2 =
     Printf_partition 1 [0x45, 0x41, 0x49] 2082 4129 2048
       ''EBD0A0A2-B9E5-4433-C087-C79926B7B668''"
  by (simp_all add: partition_line_def ex_entry_def ex_entry2_def ex_kept_chars ex_guid_text)

text \<open>
  C5, as the program has it. For a valid table (of \<open>PARTITIONS_COUNT\<close> slots whose
  entries have a 36-unit name and a 16-byte identifier), the listing is one line for
  every slot before the first empty one, in slot order, each with the index, the decoded
  name, the first and last block, the block count \<open>last - first + 1\<close> and the formatted
  identifier; then the count of the lines printed; then the table is released and the
  device closed. Slots after the first empty one are not listed.
\<close>

theorem dump_partitions_occupied_prefix:
  assumes "init e dev False = (t, Inr (Some (gpt, fd)))" and "valid gpt" and "table_ok e gpt"
  shows "dump_partitions e dev =
           (t @ [Printf_table_valid] @
              map (\<lambda>(i, p). partition_line i (memory gpt ! p))
                (enumerate 0 (occupied_prefix gpt)) @
              [Printf_total (int (length (occupied_prefix gpt))), Gpt_device_release gpt,
               Close fd],
            Inr ())"
proof -
  have "dump_loop e gpt 0 =
      (map (\<lambda>(i, p). partition_line i (memory gpt ! p)) (enumerate 0 (occupied_prefix gpt)),
       Inr (length (occupied_prefix gpt)))"
    using dump_loop_lines [OF assms(3), of 0] by (simp add: occupied_prefix_def)
  with assms(1,2) show ?thesis
    by (simp add: dump_partitions_def)
qed

theorem dump_partitions_occupied_prefix_witness:
  "init (ex_env ex_two [] 0 ex_stack) DEFAULT_BLOCKDEV False =
     ([Open_rdwr DEFAULT_BLOCKDEV 3, Ioctl_get_blocksize 3, Ioctl_get_size 3,
       Printf_geometry 512 16384, Gpt_device_init 3 512 16384], Inr (Some (ex_two, 3))) \<and>
   valid ex_two \<and> table_ok (ex_env ex_two [] 0 ex_stack) ex_two \<and>
   dump_partitions (ex_env ex_two [] 0 ex_stack) DEFAULT_BLOCKDEV =
     ([Open_rdwr DEFAULT_BLOCKDEV 3, Ioctl_get_blocksize 3, Ioctl_get_size 3,
       Printf_geometry 512 16384, Gpt_device_init 3 512 16384, Printf_table_valid,
       Printf_partition 0 [0x45, 0x46, 0x49] 34 2081 2048
         ''03020100-0504-0706-0908-0F0E0D0C0B0A'',
       Printf_partition 1 [0x45, 0x41, 0x49] 2082 4129 2048
         ''EBD0A0A2-B9E5-4433-C087-C79926B7B668'',
       Printf_total 2, Gpt_device_release ex_two, Close 3], Inr ())"
proof -
  have v: "valid ex_two" by (simp add: ex_two_def ex_table_def)
  have pre: "occupied_prefix ex_two = [0, 1]"
    by (simp add: occupied_prefix_def ex_two_def ex_table_def)
  have mem: "memory ex_two = [ex_entry, ex_entry2]"
    by (simp add: ex_two_def ex_table_def)
  show ?thesis
    using dump_partitions_occupied_prefix
        [OF ex_init_listing [of ex_two "[]" 0 ex_stack DEFAULT_BLOCKDEV] v ex_tables_ok(1)] v
    by (simp add: ex_init_listing ex_tables_ok pre mem enumerate_eq_zip upt_rec ex_lines)
qed

text \<open>
  A table with an empty slot between two partitions is not listed in full: the
  third slot is occupied, and the listing is the first partition and the count 1.
\<close>

theorem dump_partitions_stops_at_empty_slot:
  "valid ex_gap \<and> partitions ex_gap ! 2 = Some 1 \<and>
   dump_partitions (ex_env ex_gap [] 0 ex_stack) DEFAULT_BLOCKDEV =
     ([Open_rdwr DEFAULT_BLOCKDEV 3, Ioctl_get_blocksize 3, Ioctl_get_size 3,
       Printf_geometry 512 16384, Gpt_device_init 3 512 16384, Printf_table_valid,
       Printf_partition 0 [0x45, 0x46, 0x49] 34 2081 2048
         ''03020100-0504-0706-0908-0F0E0D0C0B0A'',
       Printf_total 1, Gpt_device_release ex_gap, Close 3], Inr ())"
proof -
  have v: "valid ex_gap" by (simp add: ex_gap_def ex_table_def)
  have slot: "partitions ex_gap ! 2 = Some 1"
    by (simp add: ex_gap_def ex_table_def)
  have "dump_loop (ex_env ex_gap [] 0 ex_stack) ex_gap 0 = ([partition_line 0 ex_entry], Inr 1)"
    using dump_loop_lines
        [where e = "ex_env ex_gap [] 0 ex_stack" and gpt = ex_gap and i = 0, OF ex_tables_ok(2)]
    by (simp add: ex_gap_def ex_table_def enumerate_eq_zip upt_rec)
  then show ?thesis
    using v slot by (simp add: dump_partitions_def ex_init_listing ex_lines)
qed

lemma dump_partitions_invalid:
  assumes "init e dev False = (t, Inr (Some (gpt, fd)))" and "\<not> valid gpt"
  shows "dump_partitions e dev = (t @ [Printf_no_valid_gpt], Inr ())"
  using assms by (simp add: dump_partitions_def)

subsection \<open>Adding a partition\<close>

lemma add_partition_run:
  assumes "init e dev True = (t, Inr (Some (gpt, fd)))"
    and "gpt_partition_add e (if valid gpt then gpt else gpt_device_sync e gpt) name
           (replicate 16 0xff) (mx_cprng_draw e 16) offset blocks 0 = (rc, gpt2)"
  shows "add_partition e dev offset blocks name =
           (t @ (if valid gpt then [] else [Printf_commit, Gpt_device_sync gpt, Ioctl_rr_part fd]) @
              [Mx_cprng_draw 16,
               Gpt_partition_add (if valid gpt then gpt else gpt_device_sync e gpt) name
                 (replicate 16 0xff) (mx_cprng_draw e 16) offset blocks 0] @
              (if rc = 0
               then [Printf_add name offset blocks, Printf_commit, Gpt_device_sync gpt2,
                     Ioctl_rr_part fd, Gpt_device_release (gpt_device_sync e gpt2)]
               else [Gpt_device_release gpt2]) @
              [Close fd], Inr ())"
  using assms by (cases "valid gpt") (simp_all add: add_partition_def commit_def Let_def)

text \<open>
  C6. An add that has loaded the table \<open>gpt\<close> runs as follows, and does nothing else.
  When \<open>gpt\<close> is not valid it is committed first: the message, \<open>gpt_device_sync\<close> on the
  loaded table, the re-read notification. Then the identifier is drawn and the add is
  attempted, once, on the table as that commit left it. Exactly when the add returns 0,
  the table the add left is committed in the same three steps; after any other return
  there is no further commit, and the table goes from the add to its release as it is.
  The run ends with the release and the close. Before it, opening the session commits
  nothing. For a handle of the library an invalid table is empty and a committed one is
  valid, so what the first commit writes, and what the add is attempted on, is an
  empty valid table.
\<close>

theorem add_partition_commits:
  assumes "init e dev True = (t, Inr (Some (gpt, fd)))"
    and "gpt1 = (if valid gpt then gpt else gpt_device_sync e gpt)"
    and "gpt_partition_add e gpt1 name (replicate 16 0xff) (mx_cprng_draw e 16) offset blocks 0 =
           (rc, gpt2)"
  shows "add_partition e dev offset blocks name =
           (t @ (if valid gpt then []
                 else [Printf_commit, Gpt_device_sync gpt, Ioctl_rr_part fd]) @
              [Mx_cprng_draw 16,
               Gpt_partition_add gpt1 name (replicate 16 0xff) (mx_cprng_draw e 16)
                 offset blocks 0] @
              (if rc = 0
               then [Printf_add name offset blocks, Printf_commit, Gpt_device_sync gpt2,
                     Ioctl_rr_part fd, Gpt_device_release (gpt_device_sync e gpt2)]
               else [Gpt_device_release gpt2]) @
              [Close fd], Inr ()) \<and>
         filter is_table_call t = [] \<and> filter is_commit_event t = [] \<and>
         (\<not> valid gpt \<and> loaded_table_ok e gpt \<and> committed_table_ok e gpt \<longrightarrow>
            valid gpt1 \<and> list_all (\<lambda>s. s = None) (partitions gpt1))"
proof -
  have run: "add_partition e dev offset blocks name =
      (t @ (if valid gpt then [] else [Printf_commit, Gpt_device_sync gpt, Ioctl_rr_part fd]) @
         [Mx_cprng_draw 16,
          Gpt_partition_add gpt1 name (replicate 16 0xff) (mx_cprng_draw e 16) offset blocks 0] @
         (if rc = 0
          then [Printf_add name offset blocks, Printf_commit, Gpt_device_sync gpt2,
                Ioctl_rr_part fd, Gpt_device_release (gpt_device_sync e gpt2)]
          else [Gpt_device_release gpt2]) @
         [Close fd], Inr ())"
    using add_partition_run [OF assms(1) assms(3) [unfolded assms(2)]]
    by (simp add: assms(2))
  have t: "filter is_table_call t = []" "filter is_commit_event t = []"
    using init_no_table_call [of e dev True] init_no_commit_event [of e dev True] assms(1)
    by simp_all
  have fresh: "valid gpt1 \<and> list_all (\<lambda>s. s = None) (partitions gpt1)"
    if "\<not> valid gpt \<and> loaded_table_ok e gpt \<and> committed_table_ok e gpt"
    using that by (auto simp: assms(2) loaded_table_ok_def committed_table_ok_def)
  from run t fresh show ?thesis by blast
qed

text \<open>
  On the example device: with no valid table and an add that succeeds, the run is
  commit, add, commit, release, close, and the add is attempted on an empty valid table;
  with a valid table and an add that fails, the add is followed by the release and the
  close alone.
\<close>

theorem add_partition_commits_witness:
  "init (ex_env ex_blank [(1, 10)] 0 ex_stack) DEFAULT_BLOCKDEV True =
     ([Printf_using DEFAULT_BLOCKDEV, Open_rdwr DEFAULT_BLOCKDEV 3, Ioctl_get_blocksize 3,
       Ioctl_get_size 3, Printf_geometry 512 16384, Gpt_device_init 3 512 16384],
      Inr (Some (ex_blank, 3))) \<and>
   valid ex_blank = False \<and>
   loaded_table_ok (ex_env ex_blank [(1, 10)] 0 ex_stack) ex_blank \<and>
   committed_table_ok (ex_env ex_blank [(1, 10)] 0 ex_stack) ex_blank \<and>
   add_partition (ex_env ex_blank [(1, 10)] 0 ex_stack) DEFAULT_BLOCKDEV 34 2048 ''EFI'' =
     ([Printf_using DEFAULT_BLOCKDEV, Open_rdwr DEFAULT_BLOCKDEV 3, Ioctl_get_blocksize 3,
       Ioctl_get_size 3, Printf_geometry 512 16384, Gpt_device_init 3 512 16384,
       Printf_commit, Gpt_device_sync ex_blank, Ioctl_rr_part 3,
       Mx_cprng_draw 16,
       Gpt_partition_add (ex_blank\<lparr>valid := True\<rparr>) ''EFI'' (replicate 16 0xff)
         (replicate 16 7) 34 2048 0,
       Printf_add ''EFI'' 34 2048, Printf_commit, Gpt_device_sync (ex_blank\<lparr>valid := True\<rparr>),
       Ioctl_rr_part 3, Gpt_device_release (ex_blank\<lparr>valid := True\<rparr>), Close 3], Inr ()) \<and>
   valid (ex_blank\<lparr>valid := True\<rparr>) \<and>
   list_all (\<lambda>s. s = None) (partitions (ex_blank\<lparr>valid := True\<rparr>)) \<and>
   add_partition (ex_env ex_two [(1, 10)] (- 1) ex_stack) DEFAULT_BLOCKDEV 34 2048 ''EFI'' =
     ([Printf_using DEFAULT_BLOCKDEV, Open_rdwr DEFAULT_BLOCKDEV 3, Ioctl_get_blocksize 3,
       Ioctl_get_size 3, Printf_geometry 512 16384, Gpt_device_init 3 512 16384,
       Mx_cprng_draw 16,
       Gpt_partition_add ex_two ''EFI'' (replicate 16 0xff) (replicate 16 7) 34 2048 0,
       Gpt_device_release ex_two, Close 3], Inr ())"
proof -
  have b: "\<not> valid ex_blank" and t: "valid ex_two"
    by (simp_all add: ex_blank_def ex_two_def ex_table_fields)
  have l: "loaded_table_ok (ex_env ex_blank [(1, 10)] 0 ex_stack) ex_blank"
    and c: "committed_table_ok (ex_env ex_blank [(1, 10)] 0 ex_stack) ex_blank"
    by (simp_all add: loaded_table_ok_def committed_table_ok_def ex_env_fields ex_blank_def
        ex_table_fields)
  note 1 = add_partition_commits
      [OF ex_init_enter [of ex_blank "[]" 0 ex_stack DEFAULT_BLOCKDEV] refl,
        of "''EFI''" 34 2048 0 "ex_blank\<lparr>valid := True\<rparr>"]
  note 2 = add_partition_commits
      [OF ex_init_enter [of ex_two "[]" "- 1" ex_stack DEFAULT_BLOCKDEV] refl,
        of "''EFI''" 34 2048 "- 1" ex_two]
  show ?thesis
    using 1 2 b t l c ex_init_enter [of ex_blank "[]" 0 ex_stack DEFAULT_BLOCKDEV]
    by (simp add: ex_env_fields)
qed

subsection \<open>Removing a partition\<close>

lemma remove_partition_rejected:
  assumes "init e dev True = (t, Inr (Some (gpt, fd)))"
    and "length (partitions gpt) = PARTITIONS_COUNT e"
    and "0 \<le> n"
    and "int (PARTITIONS_COUNT e) \<le> n \<or> partitions gpt ! nat n = None"
  shows "remove_partition e dev n = (t, Inr ())"
  using assms by (auto simp: remove_partition_def)

lemma remove_partition_negative:
  assumes "init e dev True = (t, Inr (Some (gpt, fd)))" and "n < 0"
  shows "remove_partition e dev n = (t, Inl OutOfBoundsRead)"
  using assms by (simp add: remove_partition_def)

lemma remove_partition_run:
  assumes "init e dev True = (t, Inr (Some (gpt, fd)))"
    and "0 \<le> n" and "n < int (PARTITIONS_COUNT e)" and "n < int (length (partitions gpt))"
    and "partitions gpt ! nat n = Some p"
    and "deref gpt p = Inr entry"
    and "gpt_partition_remove e gpt (guid_p entry) = (rc, gpt1)"
  shows "remove_partition e dev n =
           (if rc = 0 then
              (case deref gpt1 p of
                 Inl a \<Rightarrow> (t @ [Gpt_partition_remove gpt (guid_p entry)], Inl a)
               | Inr entry1 \<Rightarrow>
                   (case utf16_to_cstring (stack_name e) (name_p entry1) 36 of
                      Inl a \<Rightarrow> (t @ [Gpt_partition_remove gpt (guid_p entry)], Inl a)
                    | Inr buf \<Rightarrow>
                        (case printf_s buf of
                           Inl a \<Rightarrow> (t @ [Gpt_partition_remove gpt (guid_p entry)], Inl a)
                         | Inr s \<Rightarrow>
                             (t @ [Gpt_partition_remove gpt (guid_p entry), Printf_remove n s,
                                   Printf_commit, Gpt_device_sync gpt1, Ioctl_rr_part fd,
                                   Gpt_device_release (gpt_device_sync e gpt1), Close fd],
                              Inr ()))))
            else (t @ [Gpt_partition_remove gpt (guid_p entry), Gpt_device_release gpt1, Close fd],
                  Inr ()))"
  using assms by (simp add: remove_partition_def commit_def split: sum.splits)



text \<open>
  C1. With the index \<open>-1\<close> the test \<^verbatim>\<open>n >= PARTITIONS_COUNT\<close> does not reject, and the
  program reads \<^verbatim>\<open>gpt->partitions[-1]\<close>, outside the array: the run is not a
  rejected index, it ends in an out-of-bounds read.
\<close>

theorem remove_partition_negative_index:
  "remove_partition (ex_env ex_two [(1, 10)] 0 ex_stack) DEFAULT_BLOCKDEV (- 1) =
     ([Printf_using DEFAULT_BLOCKDEV, Open_rdwr DEFAULT_BLOCKDEV 3, Ioctl_get_blocksize 3,
       Ioctl_get_size 3, Printf_geometry 512 16384, Gpt_device_init 3 512 16384],
      Inl OutOfBoundsRead)"
  by (rule remove_partition_negative [OF ex_init_enter]) simp

subsection \<open>The name printed by remove\<close>

lemma printf_s_unterminated:
  assumes "x \<noteq> 0"
  shows "printf_s (s @ x # rest) \<noteq> Inr s"
  using assms by (auto simp: printf_s_def takeWhile_append split: if_splits)

lemma printf_s_after_kept:
  assumes "0 \<notin> set s" and "k < length dst"
  shows "(printf_s (s @ drop k dst) = Inr s) = (dst ! k = 0)"
proof -
  have step: "drop k dst = dst ! k # drop (Suc k) dst"
    using assms(2) by (simp add: Cons_nth_drop_Suc)
  show ?thesis
  proof (cases "dst ! k = 0")
    case True
    with step printf_s_terminated [OF assms(1)] show ?thesis by simp
  next
    case False
    with step printf_s_unterminated [OF False] show ?thesis by simp
  qed
qed

text \<open>
  C10. For a 36-unit name and a 37-byte buffer, the decoder replaces the first bytes of
  the buffer by the characters it keeps, none of them null, and leaves the rest of the
  buffer as the caller passed it: it writes no terminator, and the text \<^verbatim>\<open>%s\<close> reads
  is the decoded name exactly when the caller's buffer already held a null byte at
  that place. Remove decodes into the array \<open>name\<close> as the stack holds it, so the line
  it prints after a removal shows the decoded name exactly when that stack byte is 0.
\<close>

theorem utf16_to_cstring_unterminated:
  "(length src = 36 \<and> length dst = 37 \<longrightarrow>
      utf16_to_cstring dst src 36 = Inr (kept_chars src @ drop (length (kept_chars src)) dst) \<and>
      0 \<notin> set (kept_chars src) \<and>
      (printf_s (kept_chars src @ drop (length (kept_chars src)) dst) = Inr (kept_chars src)) =
        (dst ! length (kept_chars src) = 0)) \<and>
   (init e dev True = (t, Inr (Some (gpt, fd))) \<and>
    0 \<le> n \<and> n < int (PARTITIONS_COUNT e) \<and> n < int (length (partitions gpt)) \<and>
    partitions gpt ! nat n = Some p \<and> deref gpt p = Inr entry \<and>
    gpt_partition_remove e gpt (guid_p entry) = (0, gpt') \<and>
    deref gpt' p = Inr entry' \<and> length (name_p entry') = 36 \<and> length (stack_name e) = 37 \<longrightarrow>
      (Printf_remove n (kept_chars (name_p entry')) \<in> set (fst (remove_partition e dev n))) =
        (stack_name e ! length (kept_chars (name_p entry')) = 0))"
proof (intro conjI impI)
  assume a: "length src = 36 \<and> length dst = 37"
  then have k: "length (kept_chars src) < length dst"
    using length_kept_chars [of src] by simp
  show "utf16_to_cstring dst src 36 = Inr (kept_chars src @ drop (length (kept_chars src)) dst)"
    using utf16_to_cstring_kept [of 36 src dst] a k by simp
  show "0 \<notin> set (kept_chars src)" by (rule kept_chars_nonzero)
  show "(printf_s (kept_chars src @ drop (length (kept_chars src)) dst) = Inr (kept_chars src)) =
      (dst ! length (kept_chars src) = 0)"
    using kept_chars_nonzero k by (rule printf_s_after_kept)
next
  assume a: "init e dev True = (t, Inr (Some (gpt, fd))) \<and>
    0 \<le> n \<and> n < int (PARTITIONS_COUNT e) \<and> n < int (length (partitions gpt)) \<and>
    partitions gpt ! nat n = Some p \<and> deref gpt p = Inr entry \<and>
    gpt_partition_remove e gpt (guid_p entry) = (0, gpt') \<and>
    deref gpt' p = Inr entry' \<and> length (name_p entry') = 36 \<and> length (stack_name e) = 37"
  define ks where "ks = kept_chars (name_p entry')"
  have k: "length ks < length (stack_name e)"
    using length_kept_chars [of "name_p entry'"] a by (simp add: ks_def)
  have dec: "utf16_to_cstring (stack_name e) (name_p entry') 36 =
      Inr (ks @ drop (length ks) (stack_name e))"
    using utf16_to_cstring_kept [of 36 "name_p entry'" "stack_name e"] a k by (simp add: ks_def)
  have shown: "(printf_s (ks @ drop (length ks) (stack_name e)) = Inr ks) =
      (stack_name e ! length ks = 0)"
    using kept_chars_nonzero k unfolding ks_def by (rule printf_s_after_kept)
  have t: "Printf_remove n ks \<notin> set t"
    using init_no_remove_line [of n ks e dev True] a by simp
  have run: "remove_partition e dev n =
      (case printf_s (ks @ drop (length ks) (stack_name e)) of
         Inl a \<Rightarrow> (t @ [Gpt_partition_remove gpt (guid_p entry)], Inl a)
       | Inr s \<Rightarrow>
           (t @ [Gpt_partition_remove gpt (guid_p entry), Printf_remove n s,
                 Printf_commit, Gpt_device_sync gpt', Ioctl_rr_part fd,
                 Gpt_device_release (gpt_device_sync e gpt'), Close fd], Inr ()))"
    using remove_partition_run [of e dev t gpt fd n p entry 0 gpt'] a dec by simp
  show "(Printf_remove n (kept_chars (name_p entry')) \<in> set (fst (remove_partition e dev n))) =
      (stack_name e ! length (kept_chars (name_p entry')) = 0)"
    unfolding ks_def [symmetric] shown [symmetric] run using t
    by (cases "printf_s (ks @ drop (length ks) (stack_name e))") auto
qed

text \<open>
  On the example device, removing the partition \<^verbatim>\<open>EFI\<close> of slot 0: over the stack
  content \<^verbatim>\<open>junk!\<close> the buffer reads \<^verbatim>\<open>EFIk!\<close>, and the line with the name \<^verbatim>\<open>EFI\<close>
  is not printed; over a stack of null bytes it is.
\<close>

lemma ex_remove_first:
  "ex_remove ex_two (guid_p ex_entry) = (0, ex_table True [None, Some 1, None, None])"
  by (simp add: ex_remove_def ex_two_def ex_table_def ex_entry_def ex_entry2_def ex_guid_def
      ex_guid2_def)

theorem utf16_to_cstring_unterminated_witness:
  "length ex_name = 36 \<and> length ex_stack = 37 \<and>
   utf16_to_cstring ex_stack ex_name 36 = Inr ([0x45, 0x46, 0x49] @ drop 3 ex_stack) \<and>
   ex_stack ! 3 = 0x6B \<and>
   printf_s ([0x45, 0x46, 0x49] @ drop 3 ex_stack) \<noteq> Inr [0x45, 0x46, 0x49] \<and>
   Printf_remove 0 [0x45, 0x46, 0x49] \<notin>
     set (fst (remove_partition (ex_env ex_two [(1, 10)] 0 ex_stack) DEFAULT_BLOCKDEV 0)) \<and>
   Printf_remove 0 [0x45, 0x46, 0x49] \<in>
     set (fst (remove_partition (ex_env ex_two [(1, 10)] 0 (replicate 37 0)) DEFAULT_BLOCKDEV 0))"
proof -
  let ?left = "ex_table True [None, Some 1, None, None]"
  have ln: "length ex_name = 36" by (rule ex_name_length)
  have ls: "length ex_stack = 37" by (simp add: ex_stack_def)
  have byte: "ex_stack ! 3 = 0x6B" by (simp add: ex_stack_def)
  have d: "deref ex_two 0 = Inr ex_entry" and d1: "deref ?left 0 = Inr ex_entry"
    by (simp_all add: deref_def ex_two_def ex_table_fields)
  have slot: "partitions ex_two ! nat 0 = Some 0" and len: "length (partitions ex_two) = 4"
    by (simp_all add: ex_two_def ex_table_fields)
  have ne: "name_p ex_entry = ex_name" by (simp add: ex_entry_def)
  note a = utf16_to_cstring_unterminated
    [where src = ex_name and dst = ex_stack and e = "ex_env ex_two [(1, 10)] 0 ex_stack"
      and dev = DEFAULT_BLOCKDEV and gpt = ex_two and fd = 3 and n = 0 and p = 0
      and entry = ex_entry and gpt' = "?left" and entry' = ex_entry
      and t = "[Printf_using DEFAULT_BLOCKDEV, Open_rdwr DEFAULT_BLOCKDEV 3,
        Ioctl_get_blocksize 3, Ioctl_get_size 3, Printf_geometry 512 16384,
        Gpt_device_init 3 512 16384]"]
  note b = utf16_to_cstring_unterminated
    [where src = ex_name and dst = "replicate 37 0"
      and e = "ex_env ex_two [(1, 10)] 0 (replicate 37 0)"
      and dev = DEFAULT_BLOCKDEV and gpt = ex_two and fd = 3 and n = 0 and p = 0
      and entry = ex_entry and gpt' = "?left" and entry' = ex_entry
      and t = "[Printf_using DEFAULT_BLOCKDEV, Open_rdwr DEFAULT_BLOCKDEV 3,
        Ioctl_get_blocksize 3, Ioctl_get_size 3, Printf_geometry 512 16384,
        Gpt_device_init 3 512 16384]"]
  show ?thesis
    using a b ln ls byte d d1 slot len ne
    by (simp add: ex_init_enter ex_env_fields ex_remove_first ex_kept_chars numeral_3_eq_3)
qed

subsection \<open>Closing the session\<close>

text \<open>
  C3. Three runs that open the device and return without closing it or releasing the
  table: the listing of a device without a valid table, the removal of slot 4 of four
  slots, and the removal of the empty slot 2.
\<close>

theorem early_returns_leave_session_open:
  "filter is_open (fst (dump_partitions (ex_env ex_blank [] 0 ex_stack) DEFAULT_BLOCKDEV)) =
     [Open_rdwr DEFAULT_BLOCKDEV 3] \<and>
   filter is_close (fst (dump_partitions (ex_env ex_blank [] 0 ex_stack) DEFAULT_BLOCKDEV)) = [] \<and>
   filter is_release (fst (dump_partitions (ex_env ex_blank [] 0 ex_stack) DEFAULT_BLOCKDEV)) = [] \<and>
   snd (dump_partitions (ex_env ex_blank [] 0 ex_stack) DEFAULT_BLOCKDEV) = Inr () \<and>
   filter is_open (fst (remove_partition (ex_env ex_two [(1, 10)] 0 ex_stack) DEFAULT_BLOCKDEV 4)) =
     [Open_rdwr DEFAULT_BLOCKDEV 3] \<and>
   filter is_close (fst (remove_partition (ex_env ex_two [(1, 10)] 0 ex_stack) DEFAULT_BLOCKDEV 4)) = [] \<and>
   filter is_release (fst (remove_partition (ex_env ex_two [(1, 10)] 0 ex_stack) DEFAULT_BLOCKDEV 4)) = [] \<and>
   snd (remove_partition (ex_env ex_two [(1, 10)] 0 ex_stack) DEFAULT_BLOCKDEV 4) = Inr () \<and>
   filter is_open (fst (remove_partition (ex_env ex_two [(1, 10)] 0 ex_stack) DEFAULT_BLOCKDEV 2)) =
     [Open_rdwr DEFAULT_BLOCKDEV 3] \<and>
   filter is_close (fst (remove_partition (ex_env ex_two [(1, 10)] 0 ex_stack) DEFAULT_BLOCKDEV 2)) = [] \<and>
   filter is_release (fst (remove_partition (ex_env ex_two [(1, 10)] 0 ex_stack) DEFAULT_BLOCKDEV 2)) = [] \<and>
   snd (remove_partition (ex_env ex_two [(1, 10)] 0 ex_stack) DEFAULT_BLOCKDEV 2) = Inr ()"
proof -
  have b: "\<not> valid ex_blank" by (simp add: ex_blank_def ex_table_fields)
  have l: "length (partitions ex_two) = PARTITIONS_COUNT (ex_env ex_two [(1, 10)] 0 ex_stack)"
    by (simp add: ex_two_def ex_table_fields ex_env_fields)
  have 1: "dump_partitions (ex_env ex_blank [] 0 ex_stack) DEFAULT_BLOCKDEV =
     ([Open_rdwr DEFAULT_BLOCKDEV 3, Ioctl_get_blocksize 3, Ioctl_get_size 3,
       Printf_geometry 512 16384, Gpt_device_init 3 512 16384, Printf_no_valid_gpt], Inr ())"
    using dump_partitions_invalid [OF ex_init_listing b] by simp
  have 2: "remove_partition (ex_env ex_two [(1, 10)] 0 ex_stack) DEFAULT_BLOCKDEV 4 =
     ([Printf_using DEFAULT_BLOCKDEV, Open_rdwr DEFAULT_BLOCKDEV 3, Ioctl_get_blocksize 3,
       Ioctl_get_size 3, Printf_geometry 512 16384, Gpt_device_init 3 512 16384], Inr ())"
    by (rule remove_partition_rejected [OF ex_init_enter l]) (simp_all add: ex_env_fields)
  have 3: "remove_partition (ex_env ex_two [(1, 10)] 0 ex_stack) DEFAULT_BLOCKDEV 2 =
     ([Printf_using DEFAULT_BLOCKDEV, Open_rdwr DEFAULT_BLOCKDEV 3, Ioctl_get_blocksize 3,
       Ioctl_get_size 3, Printf_geometry 512 16384, Gpt_device_init 3 512 16384], Inr ())"
    by (rule remove_partition_rejected [OF ex_init_enter l])
      (simp_all add: ex_env_fields ex_two_def ex_table_fields)
  show ?thesis
    unfolding 1 2 3 by simp
qed

end
